theory Spec2Isabelle
  imports Main
begin

section \<open>Python strings and values\<close>

text \<open>
  Text is a \<^typ>\<open>string\<close>, a list of characters. The string methods of Python that
  \<^verbatim>\<open>chatbot.py\<close> calls are written out below for ASCII text: letters outside
  \<open>A\<close>..\<open>Z\<close> are left alone by \<open>lower\<close>, and the white space characters are the ten
  ASCII ones that \<^verbatim>\<open>str.isspace\<close> accepts.
\<close>

definition is_space :: "char \<Rightarrow> bool" where
  "is_space c \<longleftrightarrow>
     c \<in> set [CHR 0x09, CHR 0x0A, CHR 0x0B, CHR 0x0C, CHR 0x0D,
               CHR 0x1C, CHR 0x1D, CHR 0x1E, CHR 0x1F, CHR 0x20]"

definition lower_char :: "char \<Rightarrow> char" where
  "lower_char c =
     (case map_of (zip ''ABCDEFGHIJKLMNOPQRSTUVWXYZ'' ''abcdefghijklmnopqrstuvwxyz'') c of
        None \<Rightarrow> c
      | Some d \<Rightarrow> d)"

text \<open>\<^verbatim>\<open>s.lower()\<close>\<close>

definition lower :: "string \<Rightarrow> string" where
  "lower s = map lower_char s"

text \<open>\<^verbatim>\<open>s.strip()\<close>\<close>

definition strip :: "string \<Rightarrow> string" where
  "strip s = rev (dropWhile is_space (rev (dropWhile is_space s)))"

text \<open>\<^verbatim>\<open>s.startswith(p)\<close>\<close>

fun startswith :: "string \<Rightarrow> string \<Rightarrow> bool" where
  "startswith s [] = True"
| "startswith [] (p # ps) = False"
| "startswith (c # cs) (p # ps) = (c = p \<and> startswith cs ps)"

text \<open>\<^verbatim>\<open>sub in s\<close> for two strings: \<open>sub\<close> occurs in \<open>s\<close> as a contiguous piece.\<close>

fun contains :: "string \<Rightarrow> string \<Rightarrow> bool" where
  "contains sub [] = (sub = [])"
| "contains sub (c # cs) = (startswith (c # cs) sub \<or> contains sub cs)"

text \<open>
  \<^verbatim>\<open>s.split(sep)\<close> for a non-empty separator: the pieces between the occurrences of
  \<open>sep\<close>, found from the left and not overlapping. The counter \<open>skip\<close> is the number of
  characters of a separator just found that are still to be passed over; \<open>cur\<close> is the
  piece being read.
\<close>

fun split_aux :: "string \<Rightarrow> nat \<Rightarrow> string \<Rightarrow> string \<Rightarrow> string list" where
  "split_aux sep skip cur [] = [cur]"
| "split_aux sep skip cur (c # cs) =
     (if 0 < skip then split_aux sep (skip - 1) cur cs
      else if startswith (c # cs) sep then cur # split_aux sep (length sep - 1) [] cs
      else split_aux sep 0 (cur @ [c]) cs)"

definition split :: "string \<Rightarrow> string \<Rightarrow> string list" where
  "split s sep = split_aux sep 0 [] s"

text \<open>\<^verbatim>\<open>s.split()\<close>: the maximal runs of characters that are not white space.\<close>

fun split_ws_aux :: "string \<Rightarrow> string \<Rightarrow> string list" where
  "split_ws_aux cur [] = (if cur = [] then [] else [cur])"
| "split_ws_aux cur (c # cs) =
     (if is_space c then (if cur = [] then split_ws_aux [] cs else cur # split_ws_aux [] cs)
      else split_ws_aux (cur @ [c]) cs)"

definition split_ws :: "string \<Rightarrow> string list" where
  "split_ws s = split_ws_aux [] s"

text \<open>\<^verbatim>\<open>s.replace(old, new)\<close> for a non-empty \<open>old\<close>.\<close>

fun replace_aux :: "string \<Rightarrow> string \<Rightarrow> nat \<Rightarrow> string \<Rightarrow> string" where
  "replace_aux old new skip [] = []"
| "replace_aux old new skip (c # cs) =
     (if 0 < skip then replace_aux old new (skip - 1) cs
      else if startswith (c # cs) old then new @ replace_aux old new (length old - 1) cs
      else c # replace_aux old new 0 cs)"

definition replace :: "string \<Rightarrow> string \<Rightarrow> string \<Rightarrow> string" where
  "replace s old new = replace_aux old new 0 s"

text \<open>\<^verbatim>\<open>sep.join(xs)\<close>\<close>

fun join :: "string \<Rightarrow> string list \<Rightarrow> string" where
  "join sep [] = []"
| "join sep [x] = x"
| "join sep (x # y # ys) = x @ sep @ join sep (y # ys)"

text \<open>The number of places of \<open>s\<close> at which \<open>sub\<close> starts.\<close>

fun occurrences :: "string \<Rightarrow> string \<Rightarrow> nat" where
  "occurrences sub [] = (if sub = [] then 1 else 0)"
| "occurrences sub (c # cs) = (if startswith (c # cs) sub then 1 else 0) + occurrences sub cs"

subsection \<open>Exceptions\<close>

text \<open>
  An exception is a value. \<open>ExternalError\<close> stands for whatever a call to the language
  model, the retrieval chain or the document store raises; its text is the message.
\<close>

datatype py_error =
    KeyError string
  | IndexError
  | TypeError
  | ValueError
  | ExternalError string

subsection \<open>Integers from text\<close>

definition is_digit :: "char \<Rightarrow> bool" where
  "is_digit c \<longleftrightarrow> c \<in> set ''0123456789''"

definition digit_val :: "char \<Rightarrow> nat" where
  "digit_val c = (case map_of (zip ''0123456789'' [0, 1, 2, 3, 4, 5, 6, 7, 8, 9]) c of
                    None \<Rightarrow> 0
                  | Some d \<Rightarrow> d)"

text \<open>
  The digits of a decimal literal, where a single underscore may stand between two
  digits. \<open>ld\<close> says that the character before was a digit.
\<close>

fun parse_digits :: "nat \<Rightarrow> bool \<Rightarrow> string \<Rightarrow> nat option" where
  "parse_digits acc ld [] = (if ld then Some acc else None)"
| "parse_digits acc ld (c # cs) =
     (if is_digit c then parse_digits (acc * 10 + digit_val c) True cs
      else if c = CHR ''_'' \<and> ld then parse_digits acc False cs
      else None)"

text \<open>
  \<^verbatim>\<open>int(s)\<close> for a string: \<open>Inl ValueError\<close> when \<open>s\<close> is not a decimal literal.
  The white space that \<^verbatim>\<open>int\<close> passes over at both ends is that of C: the separators
  \<open>0x1C\<close>..\<open>0x1F\<close> are not part of it.
\<close>

definition is_int_space :: "char \<Rightarrow> bool" where
  "is_int_space c \<longleftrightarrow> c \<in> set [CHR 0x09, CHR 0x0A, CHR 0x0B, CHR 0x0C, CHR 0x0D, CHR 0x20]"

definition py_int :: "string \<Rightarrow> py_error + int" where
  "py_int s =
     (case rev (dropWhile is_int_space (rev (dropWhile is_int_space s))) of
        [] \<Rightarrow> Inl ValueError
      | c # cs \<Rightarrow>
          (if c = CHR ''-'' then
             (case parse_digits 0 False cs of None \<Rightarrow> Inl ValueError | Some n \<Rightarrow> Inr (- int n))
           else if c = CHR ''+'' then
             (case parse_digits 0 False cs of None \<Rightarrow> Inl ValueError | Some n \<Rightarrow> Inr (int n))
           else
             (case parse_digits 0 False (c # cs) of None \<Rightarrow> Inl ValueError | Some n \<Rightarrow> Inr (int n))))"

subsection \<open>Values of metadata\<close>

text \<open>
  The values a metadata dictionary holds: \<^verbatim>\<open>None\<close>, booleans, integers, strings and
  lists. Floating point numbers are not modelled.
\<close>

datatype pyval =
    PNone
  | PBool bool
  | PInt int
  | PStr string
  | PList "pyval list"

text \<open>A list is not hashable; every other value is.\<close>

fun hashable :: "pyval \<Rightarrow> bool" where
  "hashable (PList xs) = False"
| "hashable v = True"

text \<open>\<^verbatim>\<open>a == b\<close> on hashable values: \<^verbatim>\<open>True == 1\<close> and \<^verbatim>\<open>False == 0\<close> hold in Python.\<close>

fun py_eq :: "pyval \<Rightarrow> pyval \<Rightarrow> bool" where
  "py_eq (PBool b) (PInt i) = (i = (if b then 1 else 0))"
| "py_eq (PInt i) (PBool b) = (i = (if b then 1 else 0))"
| "py_eq a b = (a = b)"

text \<open>The truth value of a value in a condition.\<close>

fun truthy :: "pyval \<Rightarrow> bool" where
  "truthy PNone = False"
| "truthy (PBool b) = b"
| "truthy (PInt i) = (i \<noteq> 0)"
| "truthy (PStr s) = (s \<noteq> [])"
| "truthy (PList xs) = (xs \<noteq> [])"

text \<open>Decimal digits of a natural number, and \<^verbatim>\<open>str(i)\<close> of an integer.\<close>

fun digits :: "nat \<Rightarrow> string" where
  "digits n = (if n < 10 then [''0123456789'' ! n]
               else digits (n div 10) @ [''0123456789'' ! (n mod 10)])"

definition str_int :: "int \<Rightarrow> string" where
  "str_int i = (if i < 0 then CHR ''-'' # digits (nat (- i)) else digits (nat i))"

text \<open>
  \<^verbatim>\<open>repr(s)\<close> of a string: in single quotes, unless the string has a single quote and
  no double quote; backslash, the quote in use, and the control characters are escaped.
\<close>

definition hex_digit :: "nat \<Rightarrow> char" where
  "hex_digit n = ''0123456789abcdef'' ! n"

definition escape_char :: "char \<Rightarrow> char \<Rightarrow> string" where
  "escape_char q c =
     (if c = CHR 0x5C then [CHR 0x5C, CHR 0x5C]
      else if c = q then [CHR 0x5C, q]
      else if c = CHR 0x0A then [CHR 0x5C, CHR ''n'']
      else if c = CHR 0x0D then [CHR 0x5C, CHR ''r'']
      else if c = CHR 0x09 then [CHR 0x5C, CHR ''t'']
      else if (of_char c :: nat) < 32 \<or> (of_char c :: nat) = 127 then
        [CHR 0x5C, CHR ''x'', hex_digit ((of_char c :: nat) div 16), hex_digit ((of_char c :: nat) mod 16)]
      else [c])"

definition repr_str :: "string \<Rightarrow> string" where
  "repr_str s =
     (let q = (if CHR 0x27 \<in> set s \<and> CHR 0x22 \<notin> set s then CHR 0x22 else CHR 0x27)
      in [q] @ concat (map (escape_char q) s) @ [q])"

fun py_repr :: "pyval \<Rightarrow> string" where
  "py_repr PNone = ''None''"
| "py_repr (PBool b) = (if b then ''True'' else ''False'')"
| "py_repr (PInt i) = str_int i"
| "py_repr (PStr s) = repr_str s"
| "py_repr (PList xs) = ''['' @ join '', '' (map py_repr xs) @ '']''"

text \<open>\<^verbatim>\<open>str(v)\<close>, which is what an f-string puts in place of \<^verbatim>\<open>{v}\<close>.\<close>

fun py_str :: "pyval \<Rightarrow> string" where
  "py_str (PStr s) = s"
| "py_str v = py_repr v"

section \<open>The dictionaries and objects of the chatbot\<close>

type_synonym metadata = "string \<rightharpoonup> pyval"

text \<open>\<^verbatim>\<open>d.get(k, default)\<close>\<close>

definition get_default :: "('k \<rightharpoonup> 'v) \<Rightarrow> 'k \<Rightarrow> 'v \<Rightarrow> 'v" where
  "get_default d k dflt = (case d k of None \<Rightarrow> dflt | Some v \<Rightarrow> v)"

text \<open>A retrieved passage: a LangChain \<^verbatim>\<open>Document\<close>.\<close>

record document =
  page_content :: string
  doc_metadata :: metadata

text \<open>The dictionary that \<^verbatim>\<open>_extract_recipe_info\<close> builds for one passage.\<close>

record recipe_info =
  name :: pyval
  rating :: pyval
  prep_time :: pyval
  cook_time :: pyval
  total_time :: pyval
  servings :: pyval
  difficulty :: pyval
  cuisine :: pyval
  category :: pyval
  main_ingredients :: pyval
  cooking_methods :: pyval
  dietary_info :: pyval
  has_image :: pyval
  source_url :: pyval
  instructions :: string
  image_url :: pyval

text \<open>An entry of the source list of \<^verbatim>\<open>_process_sources\<close>.\<close>

record source_entry =
  source :: pyval
  recipe_name :: pyval
  content_preview :: string

text \<open>The dictionary that \<^verbatim>\<open>get_response\<close> returns.\<close>

record response =
  answer :: string
  sources :: "source_entry list"
  recipes :: "recipe_info list"
  suggestions :: "string list"
  error :: "py_error option"

text \<open>
  What the conversation chain returns: a dictionary in which the keys \<^verbatim>\<open>answer\<close> and
  \<^verbatim>\<open>source_documents\<close> may be missing (\<open>None\<close>).
\<close>

record chain_result =
  res_answer :: "string option"
  res_source_documents :: "document list option"

text \<open>
  The services outside the program, each a function of the state \<open>'w\<close> of the outside
  world that returns its result, or the exception it raised, and the new state.
\<close>

record 'w services =
  chain_invoke :: "'w \<Rightarrow> string \<Rightarrow> (py_error + chain_result) \<times> 'w"
  llm_invoke :: "'w \<Rightarrow> string \<Rightarrow> (py_error + string) \<times> 'w"

text \<open>The world: the state of the services, and how often each was called.\<close>

record 'w world =
  outside :: 'w
  retrieval_calls :: nat
  generation_calls :: nat

definition call_chain ::
  "'w services \<Rightarrow> 'w world \<Rightarrow> string \<Rightarrow> (py_error + chain_result) \<times> 'w world" where
  "call_chain sv w question =
     (let (r, o') = chain_invoke sv (outside w) question
      in (r, w\<lparr>outside := o', retrieval_calls := retrieval_calls w + 1\<rparr>))"

definition call_llm ::
  "'w services \<Rightarrow> 'w world \<Rightarrow> string \<Rightarrow> (py_error + string) \<times> 'w world" where
  "call_llm sv w prompt =
     (let (r, o') = llm_invoke sv (outside w) prompt
      in (r, w\<lparr>outside := o', generation_calls := generation_calls w + 1\<rparr>))"

section \<open>The answer composer\<close>

subsection \<open>\<^verbatim>\<open>_enhance_user_query\<close>\<close>

definition enhance_user_query :: "string \<Rightarrow> string" where
  "enhance_user_query user_input =
     (let query = lower user_input;
          enhancements =
            (if list_ex (\<lambda>word. contains word query) [''have'', ''using'', ''with'', ''got'']
             then [''recipe ingredients''] else [])
          @ (if list_ex (\<lambda>word. contains word query)
                  [''quick'', ''fast'', ''easy'', ''30 min'', ''hour'']
             then [''cooking time''] else [])
          @ (if list_ex (\<lambda>word. contains word query)
                  [''vegetarian'', ''vegan'', ''gluten-free'', ''low-fat'']
             then [''dietary''] else [])
          @ (if list_ex (\<lambda>cuisine. contains cuisine query)
                  [''italian'', ''mexican'', ''asian'', ''indian'', ''american'', ''chinese'', ''thai'']
             then [''cuisine''] else [])
      in if enhancements \<noteq> [] then user_input @ '' '' @ join '' '' enhancements
         else user_input)"

subsection \<open>\<^verbatim>\<open>_extract_recipe_info\<close>\<close>

text \<open>
  \<^verbatim>\<open>recipe_name in seen_recipes\<close>: the set \<open>seen_recipes\<close> is kept as the list of the
  names added so far. Looking up a value that is not hashable raises \<^verbatim>\<open>TypeError\<close>.
\<close>

definition in_seen :: "pyval \<Rightarrow> pyval list \<Rightarrow> py_error + bool" where
  "in_seen v seen = (if hashable v then Inr (list_ex (py_eq v) seen) else Inl TypeError)"

definition recipe_name_of :: "metadata \<Rightarrow> pyval" where
  "recipe_name_of md =
     get_default md ''recipe_name'' (get_default md ''title'' (PStr ''Unknown Recipe''))"

definition make_recipe_info :: "pyval \<Rightarrow> document \<Rightarrow> recipe_info" where
  "make_recipe_info nm doc =
     (let md = doc_metadata doc in
      \<lparr> name = nm,
        rating = get_default md ''rating'' (PStr ''Not rated''),
        prep_time = get_default md ''prep_time_minutes'' PNone,
        cook_time = get_default md ''cook_time_minutes'' PNone,
        total_time = get_default md ''total_time_minutes'' PNone,
        servings = get_default md ''servings'' PNone,
        difficulty = get_default md ''difficulty_level'' (PStr ''Unknown''),
        cuisine = get_default md ''cuisine_type'' (PStr ''International''),
        category = get_default md ''main_category'' (PStr ''General''),
        main_ingredients = get_default md ''main_ingredients'' (PList []),
        cooking_methods = get_default md ''cooking_methods'' (PList []),
        dietary_info = get_default md ''dietary_info'' (PList []),
        has_image = get_default md ''has_image'' (PBool False),
        source_url = get_default md ''source_url'' PNone,
        instructions = page_content doc,
        image_url = get_default md ''image_url'' (PStr []) \<rparr>)"

text \<open>
  The loop over the passages, with the two variables it updates. An exception in the
  body (the lookup of a name that is not hashable) is caught there: the passage is
  skipped and the loop goes on.
\<close>

fun extract_loop :: "pyval list \<Rightarrow> recipe_info list \<Rightarrow> document list \<Rightarrow> recipe_info list" where
  "extract_loop seen_recipes rs [] = rs"
| "extract_loop seen_recipes rs (doc # docs) =
     (let nm = recipe_name_of (doc_metadata doc) in
      case in_seen nm seen_recipes of
        Inl e \<Rightarrow> extract_loop seen_recipes rs docs
      | Inr True \<Rightarrow> extract_loop seen_recipes rs docs
      | Inr False \<Rightarrow> extract_loop (seen_recipes @ [nm]) (rs @ [make_recipe_info nm doc]) docs)"

definition extract_recipe_info :: "document list \<Rightarrow> recipe_info list" where
  "extract_recipe_info source_docs = extract_loop [] [] (take 6 source_docs)"

subsection \<open>\<^verbatim>\<open>_process_sources\<close>\<close>

fun sources_loop :: "string list \<Rightarrow> source_entry list \<Rightarrow> document list \<Rightarrow> source_entry list" where
  "sources_loop seen_sources unique_sources [] = unique_sources"
| "sources_loop seen_sources unique_sources (doc # docs) =
     (let src = get_default (doc_metadata doc) ''source'' (PStr ''Recipe Database'');
          rn = get_default (doc_metadata doc) ''recipe_name'' (PStr ''Unknown Recipe'');
          source_key = py_str src @ ''_'' @ py_str rn
      in if source_key \<notin> set seen_sources then
           sources_loop (seen_sources @ [source_key])
             (unique_sources @
                [\<lparr> source = src, recipe_name = rn,
                   content_preview =
                     (if 150 < length (page_content doc) then take 150 (page_content doc) @ ''...''
                      else page_content doc) \<rparr>])
             docs
         else sources_loop seen_sources unique_sources docs)"

definition process_sources :: "document list \<Rightarrow> source_entry list" where
  "process_sources source_docs = take 5 (sources_loop [] [] source_docs)"

subsection \<open>\<^verbatim>\<open>_generate_follow_up_suggestions\<close>\<close>

definition generate_follow_up_suggestions :: "string \<Rightarrow> recipe_info list \<Rightarrow> string list" where
  "generate_follow_up_suggestions user_input rs =
     (let query = lower user_input;
          suggestions =
            (if contains ''ingredient'' query \<or> contains ''have'' query then
               [''Show me the full recipe for the first suggestion'',
                ''What can I substitute if I'm missing an ingredient?'',
                ''How long will this take to prepare?'']
             else if list_ex (\<lambda>time_word. contains time_word query) [''quick'', ''fast'', ''easy'']
             then
               [''Show me recipes under 30 minutes'',
                ''What are some meal prep options?'',
                ''Give me beginner-friendly recipes'']
             else if 1 < length rs then
               [''Tell me more about '' @ py_str (name (hd rs)),
                ''Compare the difficulty of these recipes'',
                ''Which recipe has the highest rating?'']
             else []);
          suggestions' =
            (if length suggestions < 3 then
               suggestions @
               [''Show me ingredients and instructions'',
                ''What cuisine type would you recommend?'',
                ''Give me cooking tips for beginners'']
             else suggestions)
      in take 3 suggestions')"

subsection \<open>\<^verbatim>\<open>_generate_recipe_description\<close>\<close>

definition nl :: string where
  "nl = [CHR 0x0A]"

definition indent :: string where
  "indent = ''            ''"

definition description_prompt :: "recipe_info \<Rightarrow> string" where
  "description_prompt recipe =
     ''Write a concise, engaging description (150-200 words) for this recipe:'' @ nl
     @ indent @ ''Name: '' @ py_str (name recipe) @ nl
     @ indent @ ''Ingredients: '' @ py_str (main_ingredients recipe) @ nl
     @ indent @ ''Instructions: '' @ instructions recipe @ nl
     @ indent @ ''Cooking Method: '' @ py_str (cooking_methods recipe) @ nl
     @ indent @ ''Cuisine: '' @ py_str (cuisine recipe) @ nl
     @ indent @ ''Category: '' @ py_str (category recipe) @ nl
     @ indent @ nl
     @ indent @ ''Focus on:'' @ nl
     @ indent @ ''1. Key ingredients and their roles'' @ nl
     @ indent @ ''2. Cooking technique highlights'' @ nl
     @ indent @ ''3. Flavor profile and texture'' @ nl
     @ indent @ ''4. Serving suggestions'' @ nl
     @ indent @ ''5. What makes this recipe special'' @ nl
     @ indent @ nl
     @ indent @ ''Keep it concise and avoid repetition.''"

text \<open>
  The call of the language model is inside a \<^verbatim>\<open>try\<close>: when it raises, the templated
  one-line description is returned.
\<close>

definition generate_recipe_description ::
  "'w services \<Rightarrow> 'w world \<Rightarrow> recipe_info \<Rightarrow> string \<times> 'w world" where
  "generate_recipe_description sv w recipe =
     (case call_llm sv w (description_prompt recipe) of
        (Inr content, w') \<Rightarrow>
          (let description = strip content
           in (if 200 < length description
               then join '' '' (take 200 (split_ws description)) @ ''...''
               else description, w'))
      | (Inl e, w') \<Rightarrow>
          (''A '' @ py_str (cuisine recipe) @ '' '' @ py_str (category recipe) @ '' that's ''
             @ py_str (difficulty recipe) @ '' difficult to prepare.'', w'))"

subsection \<open>\<^verbatim>\<open>_format_response\<close>\<close>

text \<open>The characters outside ASCII of the format strings, as their UTF-8 bytes.\<close>

definition books :: string where
  "books = [CHR 0xF0, CHR 0x9F, CHR 0x93, CHR 0x9A]"

definition bullet :: string where
  "bullet = [CHR 0xE2, CHR 0x80, CHR 0xA2]"

definition stopwatch :: string where
  "stopwatch = [CHR 0xE2, CHR 0x8F, CHR 0xB1, CHR 0xEF, CHR 0xB8, CHR 0x8F]"

definition star :: string where
  "star = [CHR 0xE2, CHR 0xAD, CHR 0x90]"

definition dq :: string where
  "dq = [CHR 0x22]"

definition time_info :: "recipe_info \<Rightarrow> string" where
  "time_info recipe =
     (if truthy (total_time recipe)
      then '' '' @ bullet @ '' '' @ stopwatch @ '' '' @ py_str (total_time recipe) @ '' min''
      else if truthy (cook_time recipe)
      then '' '' @ bullet @ '' '' @ stopwatch @ '' '' @ py_str (cook_time recipe) @ '' min''
      else [])"

definition rating_info :: "recipe_info \<Rightarrow> string" where
  "rating_info recipe =
     (if truthy (rating recipe) \<and> \<not> py_eq (rating recipe) (PStr ''Not rated'')
      then '' '' @ bullet @ '' '' @ star @ '' '' @ py_str (rating recipe) @ ''/5''
      else [])"

definition image_html :: "recipe_info \<Rightarrow> string" where
  "image_html recipe =
     (if truthy (image_url recipe)
      then ''<img src='' @ dq @ py_str (image_url recipe) @ dq @ '' alt='' @ dq
           @ py_str (name recipe) @ dq @ '' style='' @ dq
           @ ''max-width: 300px; border-radius: 8px; margin: 10px 0;'' @ dq @ ''>''
      else [])"

text \<open>The loop over \<^verbatim>\<open>enumerate(recipes[:3], 1)\<close>: one call of the language model each.\<close>

fun format_loop ::
  "'w services \<Rightarrow> 'w world \<Rightarrow> string \<Rightarrow> nat \<Rightarrow> recipe_info list \<Rightarrow> string \<times> 'w world" where
  "format_loop sv w ans i [] = (ans, w)"
| "format_loop sv w ans i (recipe # rest) =
     (case generate_recipe_description sv w recipe of
        (description, w') \<Rightarrow>
          format_loop sv w'
            (ans @ str_int (int i) @ ''. **'' @ py_str (name recipe) @ ''** (''
               @ py_str (difficulty recipe) @ '')'' @ time_info recipe @ rating_info recipe @ nl
               @ (if truthy (image_url recipe) then ''   '' @ image_html recipe @ nl else [])
               @ ''   '' @ description @ nl @ nl)
            (i + 1) rest)"

definition format_response ::
  "'w services \<Rightarrow> 'w world \<Rightarrow> string \<Rightarrow> recipe_info list \<Rightarrow> string \<times> 'w world" where
  "format_response sv w ans rs =
     (if rs = [] then (ans, w)
      else if 1 < length rs then
        format_loop sv w
          (ans @ nl @ nl @ books @ '' **Found '' @ str_int (int (length rs))
             @ '' recipes for you:**'' @ nl)
          1 (take 3 rs)
      else (ans, w))"

subsection \<open>\<^verbatim>\<open>get_response\<close>\<close>

definition greeting_response :: response where
  "greeting_response =
     \<lparr> answer = ''Hello! I'm your recipe assistant. Ask me about recipes, cooking tips, or tell me what ingredients you have and I'll suggest some delicious dishes you can make!'',
       sources = [],
       recipes = [],
       suggestions = [''What ingredients do you have?'', ''Show me quick dinner recipes'',
                      ''I need a vegetarian meal''],
       error = None \<rparr>"

definition error_response :: "py_error \<Rightarrow> response" where
  "error_response e =
     \<lparr> answer = ''I'm sorry, I encountered an issue while searching for recipes. Please try rephrasing your question or ask about a specific dish or ingredient.'',
       sources = [],
       recipes = [],
       suggestions = [''Try asking about a specific ingredient'', ''Search for a cuisine type'',
                      ''Ask for cooking tips''],
       error = Some e \<rparr>"

text \<open>
  The body of the \<^verbatim>\<open>try\<close> block: \<open>Inl e\<close> when it raises \<open>e\<close>. The field \<open>error\<close> of an
  error response holds the exception whose text \<^verbatim>\<open>str(e)\<close> the source stores.
\<close>

definition get_response_try ::
  "'w services \<Rightarrow> 'w world \<Rightarrow> string \<Rightarrow> (py_error + response) \<times> 'w world" where
  "get_response_try sv w user_input =
     (let processed_query = enhance_user_query user_input in
      case call_chain sv w processed_query of
        (Inl e, w1) \<Rightarrow> (Inl e, w1)
      | (Inr result, w1) \<Rightarrow>
          (case res_answer result of
             None \<Rightarrow> (Inl (KeyError ''answer''), w1)
           | Some ans \<Rightarrow>
               (let source_docs = (case res_source_documents result of None \<Rightarrow> [] | Some ds \<Rightarrow> ds);
                    recipes_info = extract_recipe_info source_docs;
                    unique_sources = process_sources source_docs;
                    suggs = generate_follow_up_suggestions user_input recipes_info
                in case format_response sv w1 ans recipes_info of
                     (formatted_answer, w2) \<Rightarrow>
                       (Inr \<lparr> answer = formatted_answer,
                              sources = unique_sources,
                              recipes = recipes_info,
                              suggestions = suggs,
                              error = None \<rparr>, w2))))"

text \<open>
  \<open>get_response\<close> returns \<open>Inr\<close> of the dictionary it returns, and would return \<open>Inl e\<close>
  if it let the exception \<open>e\<close> out.
\<close>

definition get_response ::
  "'w services \<Rightarrow> 'w world \<Rightarrow> string \<Rightarrow> (py_error + response) \<times> 'w world" where
  "get_response sv w user_input =
     (if strip user_input = [] then (Inr greeting_response, w)
      else case get_response_try sv w user_input of
             (Inr r, w') \<Rightarrow> (Inr r, w')
           | (Inl e, w') \<Rightarrow> (Inr (error_response e), w'))"

section \<open>The filtered search\<close>

subsection \<open>\<^verbatim>\<open>_parse_recipe_document\<close>\<close>

text \<open>The dictionary \<^verbatim>\<open>recipe_info\<close> of the parser: from section names to text.\<close>

type_synonym parsed = "string \<rightharpoonup> string"

definition parse_section :: "parsed \<Rightarrow> string \<Rightarrow> parsed" where
  "parse_section info section =
     (if startswith section ''Ingredients:'' then
        info(''ingredients'' \<mapsto> strip (replace section ''Ingredients:'' []))
      else if startswith section ''Instructions:'' then
        info(''instructions'' \<mapsto> strip (replace section ''Instructions:'' []))
      else if startswith section ''Nutrition Information:'' then
        info(''nutrition'' \<mapsto> strip (replace section ''Nutrition Information:'' []))
      else info)"

text \<open>
  The servings: \<^verbatim>\<open>instructions.split('serves')[1].split()[0]\<close>, where each index
  raises \<^verbatim>\<open>IndexError\<close> when the list is too short.
\<close>

definition parse_servings :: "parsed \<Rightarrow> py_error + parsed" where
  "parse_servings info =
     (case info ''instructions'' of
        None \<Rightarrow> Inr info
      | Some instr \<Rightarrow>
          (if contains ''serves'' (lower instr) then
             (case split instr ''serves'' of
                a # b # rest \<Rightarrow>
                  (case split_ws b of
                     t # ts \<Rightarrow> Inr (info(''servings'' \<mapsto> t))
                   | [] \<Rightarrow> Inl IndexError)
              | _ \<Rightarrow> Inl IndexError)
           else Inr info))"

definition parse_description :: "parsed \<Rightarrow> parsed" where
  "parse_description info =
     (case info ''instructions'' of
        None \<Rightarrow> info
      | Some instr \<Rightarrow> info(''description'' \<mapsto> join '' '' (take 20 (split_ws instr)) @ ''...''))"

definition parse_recipe_document_try :: "string \<Rightarrow> py_error + parsed" where
  "parse_recipe_document_try doc =
     (let sections = split doc (nl @ nl);
          info = foldl parse_section Map.empty sections
      in case parse_servings info of
           Inl e \<Rightarrow> Inl e
         | Inr info' \<Rightarrow> Inr (parse_description info'))"

text \<open>An exception in the body is caught: the result is then the empty dictionary.\<close>

definition parse_recipe_document :: "string \<Rightarrow> parsed" where
  "parse_recipe_document doc =
     (case parse_recipe_document_try doc of Inl e \<Rightarrow> Map.empty | Inr info \<Rightarrow> info)"

subsection \<open>\<^verbatim>\<open>_apply_filters\<close>\<close>

text \<open>
  The filters are \<^verbatim>\<open>None\<close> or a list of tags. \<open>apply_filters_try\<close> is the body of the
  \<^verbatim>\<open>try\<close> block, entered with a list that is not empty.
\<close>

definition servings_check :: "parsed \<Rightarrow> string list \<Rightarrow> py_error + bool" where
  "servings_check info fs =
     (if list_ex (\<lambda>serving. serving \<in> set fs) [''servings-1-2'', ''servings-3-4'', ''servings-5+'']
      then
        (case split_ws (get_default info ''servings'' ''0'') of
           [] \<Rightarrow> Inl IndexError
         | t # ts \<Rightarrow>
             (case py_int t of
                Inl e \<Rightarrow> Inl e
              | Inr n \<Rightarrow>
                  (if ''servings-1-2'' \<in> set fs \<and> 2 < n then Inr False
                   else if ''servings-3-4'' \<in> set fs \<and> (n < 3 \<or> 4 < n) then Inr False
                   else if ''servings-5+'' \<in> set fs \<and> n < 5 then Inr False
                   else Inr True)))
      else Inr True)"

definition cooking_time_check :: "parsed \<Rightarrow> int \<Rightarrow> py_error + bool" where
  "cooking_time_check info cooking_time =
     (case info ''cooking_time'' of
        None \<Rightarrow> Inr True
      | Some t \<Rightarrow>
          (case py_int t of
             Inl e \<Rightarrow> Inl e
           | Inr n \<Rightarrow> Inr (\<not> cooking_time < n)))"

definition apply_filters_try :: "parsed \<Rightarrow> string list \<Rightarrow> int \<Rightarrow> py_error + bool" where
  "apply_filters_try info fs cooking_time =
     (let ty = lower (get_default info ''type'' []) in
      if ''veg'' \<in> set fs \<and> contains ''non-veg'' ty then Inr False
      else if ''non-veg'' \<in> set fs \<and> contains ''veg'' ty then Inr False
      else if list_ex (\<lambda>time. time \<in> set fs) [''breakfast'', ''lunch'', ''dinner'']
              \<and> \<not> list_ex (\<lambda>time. contains time ty) [''breakfast'', ''lunch'', ''dinner'']
      then Inr False
      else if list_ex (\<lambda>type. type \<in> set fs) [''dessert'', ''snacks'', ''main'']
              \<and> \<not> list_ex (\<lambda>type. contains type ty) [''dessert'', ''snacks'', ''main'']
      then Inr False
      else
        (case cooking_time_check info cooking_time of
           Inl e \<Rightarrow> Inl e
         | Inr False \<Rightarrow> Inr False
         | Inr True \<Rightarrow> servings_check info fs))"

definition apply_filters :: "parsed \<Rightarrow> string list option \<Rightarrow> int \<Rightarrow> bool" where
  "apply_filters info filters cooking_time =
     (case filters of
        None \<Rightarrow> True
      | Some fs \<Rightarrow>
          (if fs = [] then True
           else case apply_filters_try info fs cooking_time of
                  Inl e \<Rightarrow> True
                | Inr b \<Rightarrow> b))"

subsection \<open>\<^verbatim>\<open>search_recipes\<close>\<close>

text \<open>A card of the result list.\<close>

record recipe_card =
  card_name :: pyval
  card_image :: pyval
  card_rating :: pyval
  card_type :: string
  card_servings :: string
  card_description :: string

text \<open>What the document store returns for a query.\<close>

record query_result =
  documents :: "string list list"
  metadatas :: "metadata list list"

text \<open>
  The dictionary appended for a recipe that passed the filters. Its entries are
  evaluated in the order of the source: a missing key \<^verbatim>\<open>name\<close> or \<^verbatim>\<open>rating\<close> raises
  \<^verbatim>\<open>KeyError\<close>, and \<^verbatim>\<open>'veg' in filters\<close> raises \<^verbatim>\<open>TypeError\<close> when the filters are
  \<^verbatim>\<open>None\<close>.
\<close>

definition make_card :: "metadata \<Rightarrow> parsed \<Rightarrow> string list option \<Rightarrow> py_error + recipe_card" where
  "make_card md info filters =
     (case md ''name'' of
        None \<Rightarrow> Inl (KeyError ''name'')
      | Some nm \<Rightarrow>
          (case md ''rating'' of
             None \<Rightarrow> Inl (KeyError ''rating'')
           | Some rt \<Rightarrow>
               (case filters of
                  None \<Rightarrow> Inl TypeError
                | Some fs \<Rightarrow>
                    Inr \<lparr> card_name = nm,
                          card_image = get_default md ''image_url'' (PStr []),
                          card_rating = rt,
                          card_type = (if ''veg'' \<in> set fs then ''Vegetarian'' else ''Non-Vegetarian''),
                          card_servings = get_default info ''servings'' ''N/A'',
                          card_description = get_default info ''description'' [] \<rparr>)))"

text \<open>The loop over \<^verbatim>\<open>zip(documents[0], metadatas[0])\<close>; an exception ends it.\<close>

fun search_loop ::
  "string list option \<Rightarrow> int \<Rightarrow> recipe_card list \<Rightarrow> (string \<times> metadata) list
     \<Rightarrow> py_error + recipe_card list" where
  "search_loop filters cooking_time filtered_recipes [] = Inr filtered_recipes"
| "search_loop filters cooking_time filtered_recipes ((doc, md) # rest) =
     (let info = parse_recipe_document doc in
      if apply_filters info filters cooking_time then
        (case make_card md info filters of
           Inl e \<Rightarrow> Inl e
         | Inr rc \<Rightarrow> search_loop filters cooking_time (filtered_recipes @ [rc]) rest)
      else search_loop filters cooking_time filtered_recipes rest)"

text \<open>
  The body of the \<^verbatim>\<open>try\<close> block. The document store is the function \<open>store\<close> from the
  query and the number of results asked for to its answer: \<^verbatim>\<open>None\<close>, a result, or an
  exception.
\<close>

definition search_recipes_try ::
  "(string \<Rightarrow> nat \<Rightarrow> py_error + query_result option) \<Rightarrow> string \<Rightarrow> string list option \<Rightarrow> int
     \<Rightarrow> py_error + recipe_card list" where
  "search_recipes_try store query filters cooking_time =
     (case store query 20 of
        Inl e \<Rightarrow> Inl e
      | Inr None \<Rightarrow> Inr []
      | Inr (Some results) \<Rightarrow>
          (case documents results of
             [] \<Rightarrow> Inr []
           | docs # ds \<Rightarrow>
               (case metadatas results of
                  [] \<Rightarrow> Inl IndexError
                | mds # ms \<Rightarrow>
                    (case search_loop filters cooking_time [] (zip docs mds) of
                       Inl e \<Rightarrow> Inl e
                     | Inr filtered_recipes \<Rightarrow> Inr (take 10 filtered_recipes)))))"

text \<open>
  \<open>search_recipes\<close> returns \<open>Inr\<close> of the list it returns, and would return \<open>Inl e\<close> if it
  let the exception \<open>e\<close> out.
\<close>

definition search_recipes ::
  "(string \<Rightarrow> nat \<Rightarrow> py_error + query_result option) \<Rightarrow> string \<Rightarrow> string list option \<Rightarrow> int
     \<Rightarrow> py_error + recipe_card list" where
  "search_recipes store query filters cooking_time =
     (case search_recipes_try store query filters cooking_time of
        Inl e \<Rightarrow> Inr []
      | Inr cards \<Rightarrow> Inr cards)"

section \<open>Notions used in the statements\<close>

text \<open>The name that \<^verbatim>\<open>_extract_recipe_info\<close> gives to a passage.\<close>

definition name_of :: "document \<Rightarrow> pyval" where
  "name_of doc = recipe_name_of (doc_metadata doc)"

text \<open>A passage is nameless when its metadata has neither of the two name keys.\<close>

definition nameless :: "document \<Rightarrow> bool" where
  "nameless doc \<longleftrightarrow> doc_metadata doc ''recipe_name'' = None \<and> doc_metadata doc ''title'' = None"

text \<open>
  Two hashable values are equal in Python exactly when their images under \<open>canon\<close> are
  the same: a boolean is the integer it equals.
\<close>

definition canon :: "pyval \<Rightarrow> pyval" where
  "canon v = (case v of PBool b \<Rightarrow> PInt (if b then 1 else 0) | _ \<Rightarrow> v)"

text \<open>What \<^verbatim>\<open>_enhance_user_query\<close> appends for the signals other than ingredients.\<close>

definition other_enhancements :: "string \<Rightarrow> string list" where
  "other_enhancements user_input =
     (let query = lower user_input in
        (if list_ex (\<lambda>word. contains word query) [''quick'', ''fast'', ''easy'', ''30 min'', ''hour'']
         then [''cooking time''] else [])
      @ (if list_ex (\<lambda>word. contains word query)
              [''vegetarian'', ''vegan'', ''gluten-free'', ''low-fat'']
         then [''dietary''] else [])
      @ (if list_ex (\<lambda>cuisine. contains cuisine query)
              [''italian'', ''mexican'', ''asian'', ''indian'', ''american'', ''chinese'', ''thai'']
         then [''cuisine''] else []))"

text \<open>The meal-time tags, and the text that \<^verbatim>\<open>_apply_filters\<close> reads as the type.\<close>

definition meal_times :: "string list" where
  "meal_times = [''breakfast'', ''lunch'', ''dinner'']"

definition recipe_type :: "parsed \<Rightarrow> string" where
  "recipe_type info = lower (get_default info ''type'' [])"


text \<open>The label that a card gets from the filter list alone.\<close>

definition type_label :: "string list option \<Rightarrow> string" where
  "type_label filters =
     (if ''veg'' \<in> set (case filters of None \<Rightarrow> [] | Some fs \<Rightarrow> fs)
      then ''Vegetarian'' else ''Non-Vegetarian'')"

section \<open>Example inputs\<close>

text \<open>Services that are down, and a world in which nothing was called yet.\<close>

definition services_down :: "unit services" where
  "services_down =
     \<lparr> chain_invoke = (\<lambda>w question. (Inl (ExternalError ''chain unavailable''), w)),
       llm_invoke = (\<lambda>w prompt. (Inl (ExternalError ''model unavailable''), w)) \<rparr>"

definition world0 :: "unit world" where
  "world0 = \<lparr> outside = (), retrieval_calls = 0, generation_calls = 0 \<rparr>"

definition store_down :: "string \<Rightarrow> nat \<Rightarrow> py_error + query_result option" where
  "store_down query n = Inl (ExternalError ''store unavailable'')"

text \<open>Two stored recipes, in the text format of the document manager.\<close>

definition soup_text :: string where
  "soup_text =
     ''Recipe: Soup'' @ nl @ nl @ ''Ingredients:'' @ nl @ ''water, salt'' @ nl @ nl
     @ ''Instructions:'' @ nl @ ''Boil the water. This serves four people.''"

definition soup_metadata :: metadata where
  "soup_metadata = [''name'' \<mapsto> PStr ''Soup'', ''rating'' \<mapsto> PStr ''4'']"

definition pie_text :: string where
  "pie_text =
     ''Recipe: Apple Pie'' @ nl @ nl @ ''Ingredients:'' @ nl @ ''apples, flour'' @ nl @ nl
     @ ''Instructions:'' @ nl @ ''Bake it. It serves 4 guests.''"

definition pie_metadata :: metadata where
  "pie_metadata = [''name'' \<mapsto> PStr ''Apple Pie'', ''rating'' \<mapsto> PStr ''4.5'']"

definition store_soup_pie :: "string \<Rightarrow> nat \<Rightarrow> py_error + query_result option" where
  "store_soup_pie query n =
     Inr (Some \<lparr> documents = [[soup_text, pie_text]],
                 metadatas = [[soup_metadata, pie_metadata]] \<rparr>)"

definition store_pie :: "string \<Rightarrow> nat \<Rightarrow> py_error + query_result option" where
  "store_pie query n =
     Inr (Some \<lparr> documents = [[pie_text]], metadatas = [[pie_metadata]] \<rparr>)"

text \<open>Retrieved passages: two that carry the same name, two without a name, and one
  that is named \<open>Unknown Recipe\<close> in its metadata.\<close>

definition passage_pie1 :: document where
  "passage_pie1 =
     \<lparr> page_content = ''Peel the apples.'',
       doc_metadata = [''recipe_name'' \<mapsto> PStr ''Apple Pie''] \<rparr>"

definition passage_pie2 :: document where
  "passage_pie2 =
     \<lparr> page_content = ''Heat the oven.'',
       doc_metadata = [''recipe_name'' \<mapsto> PStr ''Apple Pie'', ''rating'' \<mapsto> PStr ''5''] \<rparr>"

definition passage_anon1 :: document where
  "passage_anon1 = \<lparr> page_content = ''Fry the onions.'', doc_metadata = Map.empty \<rparr>"

definition passage_anon2 :: document where
  "passage_anon2 = \<lparr> page_content = ''Whip the cream.'', doc_metadata = Map.empty \<rparr>"

definition passage_unknown :: document where
  "passage_unknown =
     \<lparr> page_content = ''Knead the dough.'',
       doc_metadata = [''recipe_name'' \<mapsto> PStr ''Unknown Recipe''] \<rparr>"

definition passage_named :: "string \<Rightarrow> document" where
  "passage_named nm =
     \<lparr> page_content = ''Stir.'', doc_metadata = [''recipe_name'' \<mapsto> PStr nm] \<rparr>"

text \<open>Services that answer: the chain returns three passages, the model a sentence.\<close>

definition services_up :: "unit services" where
  "services_up =
     \<lparr> chain_invoke = (\<lambda>w question.
          (Inr \<lparr> res_answer = Some ''Try the pie.'',
                 res_source_documents = Some [passage_pie1, passage_pie2, passage_anon1] \<rparr>, w)),
       llm_invoke = (\<lambda>w prompt. (Inr ''  A fine dish.  '', w)) \<rparr>"

text \<open>The cards of the two stored recipes, with the label still to be filled in.\<close>

definition soup_card :: "string \<Rightarrow> recipe_card" where
  "soup_card label =
     \<lparr> card_name = PStr ''Soup'', card_image = PStr [], card_rating = PStr ''4'',
       card_type = label, card_servings = ''four'',
       card_description = ''Boil the water. This serves four people....'' \<rparr>"

definition pie_card :: "string \<Rightarrow> recipe_card" where
  "pie_card label =
     \<lparr> card_name = PStr ''Apple Pie'', card_image = PStr [], card_rating = PStr ''4.5'',
       card_type = label, card_servings = ''4'',
       card_description = ''Bake it. It serves 4 guests....'' \<rparr>"

section \<open>Lemmas about the strings\<close>



lemma startswith_take: "startswith s p \<longleftrightarrow> take (length p) s = p"
  by (induction s p rule: startswith.induct) auto

lemma startswith_append:
  "startswith (v @ s) p \<longleftrightarrow>
     (if length p \<le> length v then startswith v p
      else take (length v) p = v \<and> startswith s (drop (length v) p))"
proof (induction v p rule: startswith.induct)
  case (1 s)
  then show ?case by simp
next
  case (2 p ps)
  then show ?case by simp
next
  case (3 c cs p ps)
  then show ?case by auto
qed

lemma startswith_short: "length v < length p \<Longrightarrow> \<not> startswith v p"
  by (auto simp: startswith_take)

lemma occurrences_append:
  assumes "p \<noteq> []"
    and ns: "\<And>k. 0 < k \<Longrightarrow> k < length p \<Longrightarrow> \<not> startswith s (drop k p)"
  shows "occurrences p (u @ s) = occurrences p u + occurrences p s"
proof (induction u)
  case Nil
  with assms(1) show ?case by simp
next
  case (Cons c cs)
  have "startswith ((c # cs) @ s) p = startswith (c # cs) p"
  proof (cases "length p \<le> length (c # cs)")
    case True
    then show ?thesis by (simp only: startswith_append if_True)
  next
    case False
    then have l: "0 < length (c # cs)" "length (c # cs) < length p" by simp_all
    from ns [OF l] have "\<not> startswith ((c # cs) @ s) p"
      using False by (simp only: startswith_append if_False) simp
    moreover from l(2) have "\<not> startswith (c # cs) p" by (rule startswith_short)
    ultimately show ?thesis by simp
  qed
  with Cons show ?case by simp
qed

lemma no_straddle:
  assumes "0 < k" and "k < length ''recipe ingredients''"
  shows "\<not> startswith ('' recipe ingredients'' @ t) (drop k ''recipe ingredients'')"
proof -
  from assms have "0 < k" and "k < 18" by simp_all
  then have "k = 1 \<or> k = 2 \<or> k = 3 \<or> k = 4 \<or> k = 5 \<or> k = 6 \<or> k = 7 \<or> k = 8 \<or> k = 9
      \<or> k = 10 \<or> k = 11 \<or> k = 12 \<or> k = 13 \<or> k = 14 \<or> k = 15 \<or> k = 16 \<or> k = 17"
    by arith
  then show ?thesis by (elim disjE) simp_all
qed

lemma occurrences_tail:
  "occurrences ''recipe ingredients''
     ('' recipe ingredients'' @ concat (map ((@) '' '') (other_enhancements u))) = 1"
  by (simp add: other_enhancements_def Let_def)

lemma join_space: "xs \<noteq> [] \<Longrightarrow> sep @ join sep xs = concat (map ((@) sep) xs)"
  by (induction sep xs rule: join.induct) auto

lemma enhance_ingredients:
  assumes "list_ex (\<lambda>word. contains word (lower user_input)) [''have'', ''using'', ''with'', ''got'']"
  shows "enhance_user_query user_input =
           user_input @ '' recipe ingredients'' @ concat (map ((@) '' '') (other_enhancements user_input))"
proof -
  have "enhance_user_query user_input =
          user_input @ '' '' @ join '' '' (''recipe ingredients'' # other_enhancements user_input)"
    using assms by (simp add: enhance_user_query_def other_enhancements_def Let_def)
  also have "'' '' @ join '' '' (''recipe ingredients'' # other_enhancements user_input) =
          concat (map ((@) '' '') (''recipe ingredients'' # other_enhancements user_input))"
    by (rule join_space) simp
  finally show ?thesis by simp
qed

section \<open>Lemmas about the extraction loop\<close>

lemma py_eq_canon: "py_eq a b \<longleftrightarrow> canon a = canon b"
  by (cases a; cases b) (auto simp: canon_def)

lemma py_eq_refl: "py_eq a a"
  by (simp add: py_eq_canon)

lemma py_eq_sym: "py_eq a b \<Longrightarrow> py_eq b a"
  by (simp add: py_eq_canon)

lemma py_eq_trans: "py_eq a b \<Longrightarrow> py_eq b c \<Longrightarrow> py_eq a c"
  by (simp add: py_eq_canon)

lemma py_eq_hashable: "py_eq a b \<Longrightarrow> hashable a = hashable b"
  by (cases a; cases b) auto

lemma py_eq_PStr: "py_eq a (PStr s) \<longleftrightarrow> a = PStr s"
  by (cases a) auto

lemma name_make_recipe_info: "name (make_recipe_info nm doc) = nm"
  by (simp add: make_recipe_info_def Let_def)

lemma extract_loop_acc: "extract_loop seen rs ds = rs @ extract_loop seen [] ds"
proof (induction ds arbitrary: seen rs)
  case Nil
  then show ?case by simp
next
  case (Cons d ds)
  show ?case
  proof (cases "in_seen (recipe_name_of (doc_metadata d)) seen")
    case (Inl e)
    then show ?thesis using Cons.IH [of seen rs] by (simp add: Let_def)
  next
    case (Inr b)
    show ?thesis
    proof (cases b)
      case True
      with Inr show ?thesis using Cons.IH [of seen rs] by (simp add: Let_def)
    next
      case False
      with Inr show ?thesis
        using Cons.IH [of "seen @ [recipe_name_of (doc_metadata d)]"
                          "rs @ [make_recipe_info (recipe_name_of (doc_metadata d)) d]"]
              Cons.IH [of "seen @ [recipe_name_of (doc_metadata d)]"
                          "[make_recipe_info (recipe_name_of (doc_metadata d)) d]"]
        by (simp add: Let_def)
    qed
  qed
qed

text \<open>One step of the loop, by cases on the name of the passage.\<close>

lemma extract_loop_skip_unhashable:
  "\<not> hashable (name_of d) \<Longrightarrow> extract_loop seen rs (d # ds) = extract_loop seen rs ds"
  by (simp add: in_seen_def name_of_def Let_def)

lemma extract_loop_skip_seen:
  "list_ex (py_eq (name_of d)) seen \<Longrightarrow> extract_loop seen rs (d # ds) = extract_loop seen rs ds"
  by (simp add: in_seen_def name_of_def Let_def)

lemma extract_loop_keep:
  "hashable (name_of d) \<Longrightarrow> \<not> list_ex (py_eq (name_of d)) seen \<Longrightarrow>
   extract_loop seen [] (d # ds) =
     make_recipe_info (name_of d) d # extract_loop (seen @ [name_of d]) [] ds"
  using extract_loop_acc [of "seen @ [name_of d]" "[make_recipe_info (name_of d) d]" ds]
  by (simp add: in_seen_def name_of_def Let_def)

lemma extract_loop_cases:
  obtains (skip) "extract_loop seen [] (d # ds) = extract_loop seen [] ds"
      "\<not> hashable (name_of d) \<or> list_ex (py_eq (name_of d)) seen"
    | (keep) "extract_loop seen [] (d # ds) =
               make_recipe_info (name_of d) d # extract_loop (seen @ [name_of d]) [] ds"
      "hashable (name_of d)" "\<not> list_ex (py_eq (name_of d)) seen"
  using extract_loop_skip_unhashable extract_loop_skip_seen extract_loop_keep by metis

lemma extract_loop_length: "length (extract_loop seen [] ds) \<le> length ds"
proof (induction ds arbitrary: seen)
  case Nil
  then show ?case by simp
next
  case (Cons d ds)
  show ?case
  proof (cases rule: extract_loop_cases [of seen d ds])
    case skip
    then show ?thesis using Cons.IH [of seen] by simp
  next
    case keep
    then show ?thesis using Cons.IH [of "seen @ [name_of d]"] by simp
  qed
qed

lemma extract_loop_origin:
  "r \<in> set (extract_loop seen [] ds) \<Longrightarrow>
   \<exists>d\<in>set ds. r = make_recipe_info (name_of d) d \<and> hashable (name_of d)
       \<and> \<not> list_ex (py_eq (name_of d)) seen"
proof (induction ds arbitrary: seen)
  case Nil
  then show ?case by simp
next
  case (Cons d ds)
  show ?case
  proof (cases rule: extract_loop_cases [of seen d ds])
    case skip
    with Cons.prems have "r \<in> set (extract_loop seen [] ds)" by simp
    from Cons.IH [OF this] show ?thesis by auto
  next
    case keep
    show ?thesis
    proof (cases "r = make_recipe_info (name_of d) d")
      case True
      with keep show ?thesis by auto
    next
      case False
      with keep Cons.prems have "r \<in> set (extract_loop (seen @ [name_of d]) [] ds)" by simp
      from Cons.IH [OF this] show ?thesis by (auto simp: list_ex_iff)
    qed
  qed
qed

lemma extract_loop_not_seen:
  assumes "list_ex (py_eq nm) seen"
  shows "filter (\<lambda>r. py_eq (name r) nm) (extract_loop seen [] ds) = []"
proof -
  have "\<not> py_eq (name r) nm" if "r \<in> set (extract_loop seen [] ds)" for r
  proof
    assume eq: "py_eq (name r) nm"
    from extract_loop_origin [OF that] obtain d where
      r: "r = make_recipe_info (name_of d) d" and ns: "\<not> list_ex (py_eq (name_of d)) seen"
      by blast
    from assms obtain s where s: "s \<in> set seen" "py_eq nm s" by (auto simp: list_ex_iff)
    from eq r have "py_eq (name_of d) nm" by (simp add: name_make_recipe_info)
    with s(2) have "py_eq (name_of d) s" by (blast intro: py_eq_trans)
    with s(1) ns show False by (auto simp: list_ex_iff)
  qed
  then show ?thesis by (simp add: filter_empty_conv)
qed

lemma extract_loop_first_seen:
  assumes "hashable nm" and "\<not> list_ex (py_eq nm) seen"
    and "find (\<lambda>d. py_eq (name_of d) nm) ds = Some d"
  shows "filter (\<lambda>r. py_eq (name r) nm) (extract_loop seen [] ds) = [make_recipe_info (name_of d) d]"
  using assms
proof (induction ds arbitrary: seen)
  case Nil
  then show ?case by simp
next
  case (Cons x xs)
  show ?case
  proof (cases "py_eq (name_of x) nm")
    case True
    with Cons.prems have dx: "d = x" by simp
    from True Cons.prems(1) have hx: "hashable (name_of x)" by (simp add: py_eq_hashable)
    have nx: "\<not> list_ex (py_eq (name_of x)) seen"
    proof
      assume "list_ex (py_eq (name_of x)) seen"
      then obtain s where s: "s \<in> set seen" "py_eq (name_of x) s" by (auto simp: list_ex_iff)
      from True have "py_eq nm (name_of x)" by (rule py_eq_sym)
      then have "py_eq nm s" using s(2) by (rule py_eq_trans)
      with s(1) Cons.prems(2) show False by (auto simp: list_ex_iff)
    qed
    have "list_ex (py_eq nm) (seen @ [name_of x])"
      using True by (auto simp: list_ex_iff dest: py_eq_sym)
    then have "filter (\<lambda>r. py_eq (name r) nm) (extract_loop (seen @ [name_of x]) [] xs) = []"
      by (rule extract_loop_not_seen)
    then show ?thesis
      using extract_loop_keep [OF hx nx, of xs] True dx by (simp add: name_make_recipe_info)
  next
    case False
    with Cons.prems have f: "find (\<lambda>d. py_eq (name_of d) nm) xs = Some d" by simp
    show ?thesis
    proof (cases rule: extract_loop_cases [of seen x xs])
      case skip
      then show ?thesis using Cons.IH [OF Cons.prems(1) Cons.prems(2) f] by simp
    next
      case keep
      have "\<not> list_ex (py_eq nm) (seen @ [name_of x])"
        using Cons.prems(2) False by (auto simp: list_ex_iff dest: py_eq_sym)
      from Cons.IH [OF Cons.prems(1) this f] keep(1) False show ?thesis
        by (simp add: name_make_recipe_info)
    qed
  qed
qed

lemma extract_loop_names_distinct:
  "distinct (map canon seen) \<Longrightarrow>
   distinct (map canon seen @ map (canon \<circ> name) (extract_loop seen [] ds))"
proof (induction ds arbitrary: seen)
  case Nil
  then show ?case by simp
next
  case (Cons d ds)
  show ?case
  proof (cases rule: extract_loop_cases [of seen d ds])
    case skip
    then show ?thesis using Cons.IH [OF Cons.prems] by simp
  next
    case keep
    have "distinct (map canon (seen @ [name_of d]))"
      using Cons.prems keep(3) by (auto simp: list_ex_iff py_eq_canon)
    from Cons.IH [OF this] keep(1) show ?thesis by (simp add: name_make_recipe_info)
  qed
qed

section \<open>Lemmas about the filtered search\<close>

lemma make_card_type:
  "make_card md info filters = Inr c \<Longrightarrow> card_type c = type_label filters"
  by (auto simp: make_card_def type_label_def split: option.splits)

lemma search_loop_type:
  "search_loop filters ct acc xs = Inr cards \<Longrightarrow>
   list_all (\<lambda>c. card_type c = type_label filters) acc \<Longrightarrow>
   list_all (\<lambda>c. card_type c = type_label filters) cards"
proof (induction xs arbitrary: acc)
  case Nil
  then show ?case by simp
next
  case (Cons x xs)
  obtain doc md where x: "x = (doc, md)" by (cases x)
  show ?case
  proof (cases "apply_filters (parse_recipe_document doc) filters ct")
    case True
    with Cons.prems x obtain c where
      c: "make_card md (parse_recipe_document doc) filters = Inr c"
      and r: "search_loop filters ct (acc @ [c]) xs = Inr cards"
      by (auto simp: Let_def split: sum.splits)
    from c have "card_type c = type_label filters" by (rule make_card_type)
    with Cons.prems(2) have "list_all (\<lambda>c. card_type c = type_label filters) (acc @ [c])"
      by simp
    with r show ?thesis by (rule Cons.IH)
  next
    case False
    with Cons.prems x have "search_loop filters ct acc xs = Inr cards"
      by (simp add: Let_def)
    then show ?thesis using Cons.prems(2) by (rule Cons.IH)
  qed
qed

lemma search_recipes_type:
  assumes "search_recipes store query filters ct = Inr cards"
  shows "list_all (\<lambda>c. card_type c = type_label filters) cards"
proof (cases "search_recipes_try store query filters ct")
  case (Inl e)
  with assms show ?thesis by (simp add: search_recipes_def)
next
  case (Inr cs)
  with assms have cs: "cs = cards" by (simp add: search_recipes_def)
  from Inr show ?thesis unfolding cs
    apply (simp add: search_recipes_try_def split: sum.splits option.splits list.splits)
    apply (auto dest!: search_loop_type simp: list_all_iff dest: in_set_takeD)
    done
qed

lemma apply_filters_meal_only_if:
  assumes "list_ex (\<lambda>t. t \<in> set fs) meal_times"
    and "apply_filters info (Some fs) ct"
  shows "list_ex (\<lambda>t. contains t (recipe_type info)) meal_times"
proof (rule ccontr)
  assume n: "\<not> list_ex (\<lambda>t. contains t (recipe_type info)) meal_times"
  from assms(1) have ne: "fs \<noteq> []" by (auto simp: meal_times_def)
  from n assms(1) have "apply_filters_try info fs ct = Inr False"
    by (simp add: apply_filters_try_def meal_times_def recipe_type_def Let_def)
  with ne assms(2) show False by (simp add: apply_filters_def)
qed







text \<open>The keys of a parsed document.\<close>

lemma parse_section_keys:
  "dom (parse_section info section) \<subseteq> dom info \<union> {''ingredients'', ''instructions'', ''nutrition''}"
  by (auto simp: parse_section_def split: if_splits)

lemma foldl_parse_section_keys:
  "dom (foldl parse_section info sections)
     \<subseteq> dom info \<union> {''ingredients'', ''instructions'', ''nutrition''}"
proof (induction sections arbitrary: info)
  case Nil
  then show ?case by auto
next
  case (Cons s ss)
  from Cons.IH [of "parse_section info s"] parse_section_keys [of info s]
  show ?case by auto
qed

lemma subset_chain:
  "A \<subseteq> B \<union> {x} \<Longrightarrow> B \<subseteq> C \<union> {y} \<Longrightarrow> C \<subseteq> {a, b, c} \<Longrightarrow> A \<subseteq> {a, b, c, y, x}"
  by blast

lemma parse_recipe_document_keys:
  "dom (parse_recipe_document doc)
     \<subseteq> {''ingredients'', ''instructions'', ''nutrition'', ''servings'', ''description''}"
proof -
  let ?info = "foldl parse_section Map.empty (split doc (nl @ nl))"
  have k: "dom ?info \<subseteq> {''ingredients'', ''instructions'', ''nutrition''}"
    using foldl_parse_section_keys [of Map.empty] by simp
  have s: "dom info' \<subseteq> dom ?info \<union> {''servings''}" if "parse_servings ?info = Inr info'" for info'
    using that by (auto simp: parse_servings_def split: option.splits if_splits list.splits)
  have d: "dom (parse_description info') \<subseteq> dom info' \<union> {''description''}" for info'
    by (auto simp: parse_description_def split: option.splits)
  show ?thesis
  proof (cases "parse_servings ?info")
    case (Inl e)
    then show ?thesis by (simp add: parse_recipe_document_def parse_recipe_document_try_def Let_def)
  next
    case (Inr info')
    then have "parse_recipe_document doc = parse_description info'"
      by (simp add: parse_recipe_document_def parse_recipe_document_try_def Let_def)
    moreover have "dom (parse_description info')
        \<subseteq> {''ingredients'', ''instructions'', ''nutrition'', ''servings'', ''description''}"
      using d [of info'] s [OF Inr] k by (rule subset_chain)
    ultimately show ?thesis by simp
  qed
qed

lemma parse_no_type: "parse_recipe_document doc ''type'' = None"
  using parse_recipe_document_keys [of doc] by (auto simp: dom_def)

lemma parse_no_cooking_time: "parse_recipe_document doc ''cooking_time'' = None"
  using parse_recipe_document_keys [of doc] by (auto simp: dom_def)

lemma apply_filters_parsed_meal_time:
  assumes "list_ex (\<lambda>t. t \<in> set fs) meal_times"
  shows "\<not> apply_filters (parse_recipe_document doc) (Some fs) ct"
proof
  assume "apply_filters (parse_recipe_document doc) (Some fs) ct"
  with assms have "list_ex (\<lambda>t. contains t (recipe_type (parse_recipe_document doc))) meal_times"
    by (rule apply_filters_meal_only_if)
  then show False
    by (simp add: recipe_type_def get_default_def parse_no_type lower_def meal_times_def)
qed

lemma search_loop_meal_time:
  assumes "list_ex (\<lambda>t. t \<in> set fs) meal_times"
  shows "search_loop (Some fs) ct acc xs = Inr acc"
proof (induction xs)
  case Nil
  then show ?case by simp
next
  case (Cons x xs)
  obtain doc md where x: "x = (doc, md)" by (cases x)
  with Cons apply_filters_parsed_meal_time [OF assms, of doc ct] show ?case
    by (simp add: Let_def)
qed

lemma search_recipes_meal_time:
  assumes "list_ex (\<lambda>t. t \<in> set fs) meal_times"
  shows "search_recipes store query (Some fs) ct = Inr []"
  by (simp add: search_recipes_def search_recipes_try_def search_loop_meal_time [OF assms]
      split: sum.splits option.splits list.splits)

lemma search_loop_cooking_time:
  "search_loop filters ct acc xs = search_loop filters ct' acc xs"
proof -
  have a: "apply_filters (parse_recipe_document doc) filters ct
         = apply_filters (parse_recipe_document doc) filters ct'" for doc
    by (simp add: apply_filters_def apply_filters_try_def cooking_time_check_def
        parse_no_cooking_time Let_def split: option.splits)
  show ?thesis
  proof (induction xs arbitrary: acc)
    case Nil
    then show ?case by simp
  next
    case (Cons x xs)
    obtain doc md where x: "x = (doc, md)" by (cases x)
    with Cons a [of doc] show ?case by (simp add: Let_def split: sum.splits)
  qed
qed

lemma search_recipes_cooking_time:
  "search_recipes store query filters ct = search_recipes store query filters ct'"
  unfolding search_recipes_def search_recipes_try_def search_loop_cooking_time [of filters ct _ _ ct']
  by (rule refl)

section \<open>The suggestions of an answer\<close>

text \<open>
  Claim C4. For every user input and every list of extracted recipes, the list of
  suggestions has length exactly 3, whichever branch of
  \<^verbatim>\<open>_generate_follow_up_suggestions\<close> built it (ingredient intent, quick/fast/easy,
  more than one recipe, or none of them); and so has the list of suggestions of every
  response of \<open>get_response\<close>, the greeting and the apology included.
\<close>

theorem suggestions_length:
  "length (generate_follow_up_suggestions user_input rs) = 3
   \<and> (fst (get_response sv w user_input) = Inr r \<longrightarrow> length (suggestions r) = 3)"
proof -
  have a: "length (generate_follow_up_suggestions u rs) = 3" for u rs
    by (simp add: generate_follow_up_suggestions_def Let_def)
  have "length (suggestions r) = 3" if "fst (get_response sv w user_input) = Inr r"
  proof (cases "strip user_input = []")
    case True
    with that show ?thesis by (auto simp: get_response_def greeting_response_def)
  next
    case False
    show ?thesis
    proof (cases "fst (get_response_try sv w user_input)")
      case (Inl e)
      with False that have "r = error_response e"
        by (auto simp: get_response_def split: prod.splits sum.splits)
      then show ?thesis by (simp add: error_response_def)
    next
      case (Inr r')
      with False that have r: "r = r'"
        by (auto simp: get_response_def split: prod.splits sum.splits)
      from Inr have "length (suggestions r') = 3"
        by (auto simp: get_response_try_def Let_def a split: prod.splits sum.splits option.splits)
      with r show ?thesis by simp
    qed
  qed
  with a show ?thesis by simp
qed

text \<open>
  An answer for which the chain returns three passages, two of them for the same pie:
  two recipes are extracted, and the suggestions are the three of the third branch.
\<close>

theorem suggestions_length_witness:
  "fst (get_response services_up world0 ''something sweet'') =
     Inr \<lparr> answer = ''Try the pie.'' @ nl @ nl @ books @ '' **Found 2 recipes for you:**'' @ nl
               @ ''1. **Apple Pie** (Unknown)'' @ nl @ ''   A fine dish.'' @ nl @ nl
               @ ''2. **Unknown Recipe** (Unknown)'' @ nl @ ''   A fine dish.'' @ nl @ nl,
           sources = process_sources [passage_pie1, passage_pie2, passage_anon1],
           recipes = [make_recipe_info (PStr ''Apple Pie'') passage_pie1,
                      make_recipe_info (PStr ''Unknown Recipe'') passage_anon1],
           suggestions = [''Tell me more about Apple Pie'',
                          ''Compare the difficulty of these recipes'',
                          ''Which recipe has the highest rating?''],
           error = None \<rparr>
   \<and> length [''Tell me more about Apple Pie'',
              ''Compare the difficulty of these recipes'',
              ''Which recipe has the highest rating?''] = 3"
proof -
  have h: "fst (get_response services_up world0 ''something sweet'') =
     Inr \<lparr> answer = ''Try the pie.'' @ nl @ nl @ books @ '' **Found 2 recipes for you:**'' @ nl
               @ ''1. **Apple Pie** (Unknown)'' @ nl @ ''   A fine dish.'' @ nl @ nl
               @ ''2. **Unknown Recipe** (Unknown)'' @ nl @ ''   A fine dish.'' @ nl @ nl,
           sources = process_sources [passage_pie1, passage_pie2, passage_anon1],
           recipes = [make_recipe_info (PStr ''Apple Pie'') passage_pie1,
                      make_recipe_info (PStr ''Unknown Recipe'') passage_anon1],
           suggestions = [''Tell me more about Apple Pie'',
                          ''Compare the difficulty of these recipes'',
                          ''Which recipe has the highest rating?''],
           error = None \<rparr>"
    by code_simp
  from suggestions_length [where sv = services_up and w = world0
      and user_input = "''something sweet''"] h
  show ?thesis by simp
qed

section \<open>Empty input\<close>



section \<open>The entry points do not raise\<close>

text \<open>
  Claim C3. For every input, \<open>get_response\<close> and \<open>search_recipes\<close> return a value and
  let no exception out. When the body of the \<^verbatim>\<open>try\<close> block of \<open>get_response\<close> raises
  \<open>e\<close>, the response is the apology: its fixed text, no sources, no recipes, a list of
  three suggestions, and \<open>e\<close> in the field \<open>error\<close>. When the body of the \<^verbatim>\<open>try\<close> block
  of \<open>search_recipes\<close> raises, the result is the empty list.
\<close>

theorem entry_points_never_raise:
  "(\<exists>r. fst (get_response sv w user_input) = Inr r)
   \<and> (strip user_input \<noteq> [] \<and> fst (get_response_try sv w user_input) = Inl e \<longrightarrow>
        fst (get_response sv w user_input) =
          Inr \<lparr> answer = ''I'm sorry, I encountered an issue while searching for recipes. Please try rephrasing your question or ask about a specific dish or ingredient.'',
                sources = [],
                recipes = [],
                suggestions = [''Try asking about a specific ingredient'', ''Search for a cuisine type'',
                               ''Ask for cooking tips''],
                error = Some e \<rparr>)
   \<and> (\<exists>cards. search_recipes store query filters cooking_time = Inr cards)
   \<and> (search_recipes_try store query filters cooking_time = Inl e' \<longrightarrow>
        search_recipes store query filters cooking_time = Inr [])"
proof -
  have a: "\<exists>r. fst (get_response sv w user_input) = Inr r"
    by (auto simp: get_response_def split: prod.splits sum.splits)
  have b: "fst (get_response sv w user_input) = Inr (error_response e)"
    if "strip user_input \<noteq> []" and "fst (get_response_try sv w user_input) = Inl e"
    using that by (auto simp: get_response_def split: prod.splits sum.splits)
  have c: "\<exists>cards. search_recipes store query filters cooking_time = Inr cards"
    by (auto simp: search_recipes_def split: sum.splits)
  have d: "search_recipes store query filters cooking_time = Inr []"
    if "search_recipes_try store query filters cooking_time = Inl e'"
    using that by (simp add: search_recipes_def)
  from a b c d show ?thesis by (simp add: error_response_def)
qed

text \<open>The chain and the store are both unavailable.\<close>

theorem entry_points_never_raise_witness:
  "strip ''pasta'' \<noteq> []
   \<and> fst (get_response_try services_down world0 ''pasta'') = Inl (ExternalError ''chain unavailable'')
   \<and> fst (get_response services_down world0 ''pasta'') =
        Inr (error_response (ExternalError ''chain unavailable''))
   \<and> search_recipes_try store_down ''pasta'' (Some [''veg'']) 30 = Inl (ExternalError ''store unavailable'')
   \<and> search_recipes store_down ''pasta'' (Some [''veg'']) 30 = Inr []"
proof -
  have h1: "strip ''pasta'' \<noteq> []" by code_simp
  have h2: "fst (get_response_try services_down world0 ''pasta'') = Inl (ExternalError ''chain unavailable'')"
    by (simp add: get_response_try_def call_chain_def services_down_def Let_def)
  have h3: "search_recipes_try store_down ''pasta'' (Some [''veg'']) 30 = Inl (ExternalError ''store unavailable'')"
    by (simp add: search_recipes_try_def store_down_def)
  from entry_points_never_raise [of services_down world0 "''pasta''" "ExternalError ''chain unavailable''"
      store_down "''pasta''" "Some [''veg'']" 30 "ExternalError ''store unavailable''"] h1 h2 h3
  show ?thesis by (simp add: error_response_def)
qed

section \<open>The label of a card\<close>

text \<open>
  Claim C9. In every filtered search the field \<open>type\<close> of every returned card depends on
  the filter list alone: it is \<open>Vegetarian\<close> when \<open>veg\<close> is in the list and
  \<open>Non-Vegetarian\<close> otherwise. So two searches with the same filters give their cards
  the same label, whatever the stores hold, and all cards of one result carry one label.
\<close>

theorem card_type_from_filters:
  assumes "search_recipes store1 query1 filters ct1 = Inr cards1"
    and "search_recipes store2 query2 filters ct2 = Inr cards2"
    and "c1 \<in> set cards1" and "c2 \<in> set cards2"
  shows "card_type c1 =
           (if ''veg'' \<in> set (case filters of None \<Rightarrow> [] | Some fs \<Rightarrow> fs)
            then ''Vegetarian'' else ''Non-Vegetarian'')
         \<and> card_type c2 = card_type c1"
proof -
  from assms(1,3) have "card_type c1 = type_label filters"
    by (auto dest!: search_recipes_type simp: list_all_iff)
  moreover from assms(2,4) have "card_type c2 = type_label filters"
    by (auto dest!: search_recipes_type simp: list_all_iff)
  ultimately show ?thesis by (simp add: type_label_def)
qed

text \<open>Two stores with different documents, searched with the filter \<open>veg\<close>.\<close>

theorem card_type_from_filters_witness:
  "search_recipes store_soup_pie ''soup'' (Some [''veg'']) 30
     = Inr [soup_card ''Vegetarian'', pie_card ''Vegetarian'']
   \<and> search_recipes store_pie ''pie'' (Some [''veg'']) 10 = Inr [pie_card ''Vegetarian'']
   \<and> card_type (soup_card ''Vegetarian'') = ''Vegetarian''
   \<and> card_type (pie_card ''Vegetarian'') = card_type (soup_card ''Vegetarian'')"
proof -
  have h1: "search_recipes store_soup_pie ''soup'' (Some [''veg'']) 30
      = Inr [soup_card ''Vegetarian'', pie_card ''Vegetarian'']"
    by code_simp
  have h2: "search_recipes store_pie ''pie'' (Some [''veg'']) 10 = Inr [pie_card ''Vegetarian'']"
    by code_simp
  from card_type_from_filters [OF h1 h2, of "soup_card ''Vegetarian''" "pie_card ''Vegetarian''"] h1 h2
  show ?thesis by simp
qed

section \<open>An error in the filters\<close>



section \<open>Extraction of the recipes\<close>

lemma extract_loop_filter_hashable:
  "extract_loop seen rs (filter (\<lambda>d. hashable (name_of d)) ds) = extract_loop seen rs ds"
proof (induction ds arbitrary: seen rs)
  case Nil
  then show ?case by simp
next
  case (Cons d ds)
  show ?case
  proof (cases "hashable (name_of d)")
    case True
    with Cons show ?thesis by (simp add: Let_def split: sum.splits bool.splits)
  next
    case False
    with Cons show ?thesis by (simp add: in_seen_def name_of_def Let_def)
  qed
qed

lemma extract_names_distinct:
  "distinct (map (canon \<circ> name) (extract_recipe_info docs))"
  using extract_loop_names_distinct [of "[]" "take 6 docs"]
  by (simp add: extract_recipe_info_def)

lemma extract_names_pairwise:
  assumes "i < j" and "j < length (extract_recipe_info docs)"
  shows "\<not> py_eq (name (extract_recipe_info docs ! i)) (name (extract_recipe_info docs ! j))"
proof -
  let ?out = "extract_recipe_info docs"
  from assms have "map (canon \<circ> name) ?out ! i \<noteq> map (canon \<circ> name) ?out ! j"
    using extract_names_distinct [of docs] by (simp add: distinct_conv_nth)
  with assms show ?thesis by (simp add: py_eq_canon)
qed

lemma nameless_name: "nameless d \<Longrightarrow> name_of d = PStr ''Unknown Recipe''"
  by (simp add: nameless_def name_of_def recipe_name_of_def get_default_def)

lemma py_eq_PStr_filter:
  "filter (\<lambda>r. py_eq (name r) (PStr s)) rs = filter (\<lambda>r. name r = PStr s) rs"
  by (simp add: py_eq_PStr)

text \<open>
  Claim C5. The extraction looks at the first 6 passages at most and builds at most
  one recipe per name: every recipe of the result is built from one of these passages,
  there are at most 6 of them, and no two of them have names that Python holds equal.
  For a name that a passage among the first 6 carries, exactly one recipe of the
  result has that name, and it is the one built from the first passage with that name;
  in particular two passages with the same name give one recipe, that of the first.
  A field missing in the metadata takes its default (rating \<open>Not rated\<close>, cuisine
  \<open>International\<close>, difficulty \<open>Unknown\<close>). A malformed passage, one whose name is not
  hashable so that the lookup of the name raises, is skipped: the result is that of the
  loop over the other passages of the first 6.
\<close>

theorem extract_recipe_info_dedup:
  "length (extract_recipe_info docs) \<le> 6
   \<and> (\<forall>r \<in> set (extract_recipe_info docs). \<exists>d \<in> set (take 6 docs). r = make_recipe_info (name_of d) d)
   \<and> (\<forall>i j. i < j \<and> j < length (extract_recipe_info docs) \<longrightarrow>
         \<not> py_eq (name (extract_recipe_info docs ! i)) (name (extract_recipe_info docs ! j)))
   \<and> (hashable nm \<and> find (\<lambda>d. py_eq (name_of d) nm) (take 6 docs) = Some d \<longrightarrow>
         filter (\<lambda>r. py_eq (name r) nm) (extract_recipe_info docs) = [make_recipe_info (name_of d) d])
   \<and> (hashable (name_of d1) \<and> name_of d2 = name_of d1 \<longrightarrow>
         extract_recipe_info [d1, d2] = [make_recipe_info (name_of d1) d1])
   \<and> (doc_metadata p ''rating'' = None \<longrightarrow> rating (make_recipe_info n p) = PStr ''Not rated'')
   \<and> (doc_metadata p ''cuisine_type'' = None \<longrightarrow> cuisine (make_recipe_info n p) = PStr ''International'')
   \<and> (doc_metadata p ''difficulty_level'' = None \<longrightarrow> difficulty (make_recipe_info n p) = PStr ''Unknown'')
   \<and> extract_recipe_info docs = extract_loop [] [] (filter (\<lambda>d. hashable (name_of d)) (take 6 docs))"
proof -
  have a: "length (extract_recipe_info docs) \<le> 6"
    using extract_loop_length [of "[]" "take 6 docs"] by (simp add: extract_recipe_info_def)
  have b: "\<forall>r \<in> set (extract_recipe_info docs). \<exists>d \<in> set (take 6 docs). r = make_recipe_info (name_of d) d"
    using extract_loop_origin [of _ "[]" "take 6 docs"] by (auto simp: extract_recipe_info_def)
  have c: "\<forall>i j. i < j \<and> j < length (extract_recipe_info docs) \<longrightarrow>
         \<not> py_eq (name (extract_recipe_info docs ! i)) (name (extract_recipe_info docs ! j))"
    using extract_names_pairwise by blast
  have d: "filter (\<lambda>r. py_eq (name r) nm) (extract_recipe_info docs) = [make_recipe_info (name_of d) d]"
    if "hashable nm" and "find (\<lambda>d. py_eq (name_of d) nm) (take 6 docs) = Some d"
    using extract_loop_first_seen [OF that(1) _ that(2), of "[]"] by (simp add: extract_recipe_info_def)
  have e: "extract_recipe_info [d1, d2] = [make_recipe_info (name_of d1) d1]"
    if "hashable (name_of d1)" and "name_of d2 = name_of d1"
    using that by (simp add: extract_recipe_info_def in_seen_def name_of_def Let_def py_eq_refl)
  have f: "rating (make_recipe_info n p) = PStr ''Not rated''" if "doc_metadata p ''rating'' = None"
    using that by (simp add: make_recipe_info_def get_default_def Let_def)
  have g: "cuisine (make_recipe_info n p) = PStr ''International''" if "doc_metadata p ''cuisine_type'' = None"
    using that by (simp add: make_recipe_info_def get_default_def Let_def)
  have h: "difficulty (make_recipe_info n p) = PStr ''Unknown''" if "doc_metadata p ''difficulty_level'' = None"
    using that by (simp add: make_recipe_info_def get_default_def Let_def)
  have i: "extract_recipe_info docs = extract_loop [] [] (filter (\<lambda>d. hashable (name_of d)) (take 6 docs))"
    by (simp add: extract_recipe_info_def extract_loop_filter_hashable)
  from a b c d e f g h i show ?thesis by (intro conjI impI) (simp_all only: HOL.simp_thms)
qed

text \<open>
  Three passages, the second and the third both named \<open>Apple Pie\<close>: the one recipe of
  that name is built from the second passage, and its rating is the default.
\<close>

theorem extract_recipe_info_dedup_witness:
  "hashable (PStr ''Apple Pie'')
   \<and> find (\<lambda>d. py_eq (name_of d) (PStr ''Apple Pie''))
        (take 6 [passage_anon1, passage_pie1, passage_pie2]) = Some passage_pie1
   \<and> filter (\<lambda>r. py_eq (name r) (PStr ''Apple Pie''))
        (extract_recipe_info [passage_anon1, passage_pie1, passage_pie2])
       = [make_recipe_info (PStr ''Apple Pie'') passage_pie1]
   \<and> name_of passage_pie2 = name_of passage_pie1
   \<and> extract_recipe_info [passage_pie1, passage_pie2] = [make_recipe_info (PStr ''Apple Pie'') passage_pie1]
   \<and> doc_metadata passage_pie1 ''rating'' = None
   \<and> rating (make_recipe_info (PStr ''Apple Pie'') passage_pie1) = PStr ''Not rated''"
proof -
  have h1: "hashable (PStr ''Apple Pie'')" by simp
  have h2: "find (\<lambda>d. py_eq (name_of d) (PStr ''Apple Pie''))
      (take 6 [passage_anon1, passage_pie1, passage_pie2]) = Some passage_pie1"
    by (simp add: name_of_def recipe_name_of_def get_default_def passage_anon1_def passage_pie1_def)
  have h3: "doc_metadata passage_pie1 ''rating'' = None" by (simp add: passage_pie1_def)
  have n1: "name_of passage_pie1 = PStr ''Apple Pie''"
    by (simp add: name_of_def recipe_name_of_def get_default_def passage_pie1_def)
  have n2: "name_of passage_pie2 = PStr ''Apple Pie''"
    by (simp add: name_of_def recipe_name_of_def get_default_def passage_pie2_def)
  note t = extract_recipe_info_dedup [where docs = "[passage_anon1, passage_pie1, passage_pie2]"
      and nm = "PStr ''Apple Pie''" and d = passage_pie1 and ?d1.0 = passage_pie1
      and ?d2.0 = passage_pie2 and p = passage_pie1 and n = "PStr ''Apple Pie''"]
  from t have "hashable (PStr ''Apple Pie'')
        \<and> find (\<lambda>d. py_eq (name_of d) (PStr ''Apple Pie''))
             (take 6 [passage_anon1, passage_pie1, passage_pie2]) = Some passage_pie1 \<longrightarrow>
      filter (\<lambda>r. py_eq (name r) (PStr ''Apple Pie''))
        (extract_recipe_info [passage_anon1, passage_pie1, passage_pie2])
       = [make_recipe_info (name_of passage_pie1) passage_pie1]"
    by (elim conjE)
  with h1 h2 have a: "filter (\<lambda>r. py_eq (name r) (PStr ''Apple Pie''))
        (extract_recipe_info [passage_anon1, passage_pie1, passage_pie2])
       = [make_recipe_info (PStr ''Apple Pie'') passage_pie1]"
    by (simp only: n1 HOL.simp_thms)
  from t have "hashable (name_of passage_pie1) \<and> name_of passage_pie2 = name_of passage_pie1 \<longrightarrow>
      extract_recipe_info [passage_pie1, passage_pie2] = [make_recipe_info (name_of passage_pie1) passage_pie1]"
    by (elim conjE)
  with h1 have b: "extract_recipe_info [passage_pie1, passage_pie2]
      = [make_recipe_info (PStr ''Apple Pie'') passage_pie1]"
    by (simp only: n1 n2 HOL.simp_thms)
  from t have "doc_metadata passage_pie1 ''rating'' = None \<longrightarrow>
      rating (make_recipe_info (PStr ''Apple Pie'') passage_pie1) = PStr ''Not rated''"
    by (elim conjE)
  with h3 have c: "rating (make_recipe_info (PStr ''Apple Pie'') passage_pie1) = PStr ''Not rated''"
    by (simp only: HOL.simp_thms)
  from h1 h2 a b c h3 n1 n2 show ?thesis by (simp only: HOL.simp_thms)
qed

text \<open>
  Claim C10 (amended). Two passages among the first six that both lack the metadata
  keys \<open>recipe_name\<close> and \<open>title\<close> are both given the fallback name \<open>Unknown Recipe\<close>
  and collapse into a single recipe: when the first of the two is the first passage at
  all whose name is \<open>Unknown Recipe\<close>, the only recipe of that name in the result is the
  one built from it, so that every later passage without a name is dropped, whatever
  it describes.
\<close>

theorem nameless_passages_collapse:
  assumes "i < j" and "j < length docs" and "j < 6"
    and "nameless (docs ! i)" and "nameless (docs ! j)"
    and "\<forall>k<i. name_of (docs ! k) \<noteq> PStr ''Unknown Recipe''"
  shows "name_of (docs ! i) = PStr ''Unknown Recipe''
       \<and> name_of (docs ! j) = PStr ''Unknown Recipe''
       \<and> filter (\<lambda>r. name r = PStr ''Unknown Recipe'') (extract_recipe_info docs)
           = [make_recipe_info (PStr ''Unknown Recipe'') (docs ! i)]"
proof -
  let ?u = "PStr ''Unknown Recipe''"
  from assms(4,5) have n: "name_of (docs ! i) = ?u" "name_of (docs ! j) = ?u"
    by (simp_all add: nameless_name)
  from assms(1-3) have i: "i < length (take 6 docs)" by simp
  have "find (\<lambda>d. py_eq (name_of d) ?u) (take 6 docs) = Some (docs ! i)"
    unfolding find_Some_iff
  proof (intro exI [of _ i] conjI allI impI)
    show "i < length (take 6 docs)" by (rule i)
    show "py_eq (name_of (take 6 docs ! i)) ?u" using i n(1) by simp
    show "docs ! i = take 6 docs ! i" using i by simp
    show "\<not> py_eq (name_of (take 6 docs ! k)) ?u" if "k < i" for k
      using that i assms(6) by (simp add: py_eq_PStr)
  qed
  from extract_loop_first_seen [OF _ _ this, of "[]"] n(1)
  have "filter (\<lambda>r. py_eq (name r) ?u) (extract_recipe_info docs) = [make_recipe_info ?u (docs ! i)]"
    by (simp add: extract_recipe_info_def)
  with n show ?thesis by (simp only: py_eq_PStr_filter)
qed

text \<open>A named passage, then two passages without a name.\<close>

theorem nameless_passages_collapse_witness:
  "nameless ([passage_pie1, passage_anon1, passage_anon2] ! 1)
   \<and> nameless ([passage_pie1, passage_anon1, passage_anon2] ! 2)
   \<and> filter (\<lambda>r. name r = PStr ''Unknown Recipe'')
        (extract_recipe_info [passage_pie1, passage_anon1, passage_anon2])
       = [make_recipe_info (PStr ''Unknown Recipe'') passage_anon1]"
proof -
  let ?docs = "[passage_pie1, passage_anon1, passage_anon2]"
  have h1: "nameless (?docs ! 1)" by (simp add: nameless_def passage_anon1_def)
  have h2: "nameless (?docs ! 2)" by (simp add: nameless_def passage_anon2_def)
  have h3: "\<forall>k<1. name_of (?docs ! k) \<noteq> PStr ''Unknown Recipe''"
    by (simp add: name_of_def recipe_name_of_def get_default_def passage_pie1_def)
  from nameless_passages_collapse [of 1 2 ?docs, OF _ _ _ h1 h2 h3] h1 h2
  show ?thesis by simp
qed

text \<open>
  Without the two conditions the first passage without a name need not be kept. After
  a passage that is named \<open>Unknown Recipe\<close> in its metadata, both passages without a
  name are dropped and the recipe kept is that of the named passage. And when six
  passages with other names come first, the two passages without a name are outside
  the first six and no recipe of the result is named \<open>Unknown Recipe\<close>.
\<close>

theorem nameless_passages_collapse_counterexample:
  "nameless passage_anon1 \<and> nameless passage_anon2
   \<and> extract_recipe_info [passage_unknown, passage_anon1, passage_anon2]
       = [make_recipe_info (PStr ''Unknown Recipe'') passage_unknown]
   \<and> make_recipe_info (PStr ''Unknown Recipe'') passage_anon1
       \<noteq> make_recipe_info (PStr ''Unknown Recipe'') passage_unknown
   \<and> filter (\<lambda>r. name r = PStr ''Unknown Recipe'')
        (extract_recipe_info
           [passage_named ''Stew'', passage_named ''Curry'', passage_named ''Salad'',
            passage_named ''Bread'', passage_named ''Tart'', passage_named ''Rice'',
            passage_anon1, passage_anon2]) = []"
proof -
  have a: "nameless passage_anon1 \<and> nameless passage_anon2"
    by (simp add: nameless_def passage_anon1_def passage_anon2_def)
  have b: "extract_recipe_info [passage_unknown, passage_anon1, passage_anon2]
       = [make_recipe_info (PStr ''Unknown Recipe'') passage_unknown]"
    by (simp add: extract_recipe_info_def in_seen_def recipe_name_of_def get_default_def Let_def
        passage_unknown_def passage_anon1_def passage_anon2_def)
  have c: "make_recipe_info (PStr ''Unknown Recipe'') passage_anon1
       \<noteq> make_recipe_info (PStr ''Unknown Recipe'') passage_unknown"
    by (simp add: make_recipe_info_def passage_anon1_def passage_unknown_def Let_def)
  have d: "filter (\<lambda>r. name r = PStr ''Unknown Recipe'')
        (extract_recipe_info
           [passage_named ''Stew'', passage_named ''Curry'', passage_named ''Salad'',
            passage_named ''Bread'', passage_named ''Tart'', passage_named ''Rice'',
            passage_anon1, passage_anon2]) = []"
    by (simp add: extract_recipe_info_def in_seen_def recipe_name_of_def get_default_def Let_def
        passage_named_def make_recipe_info_def)
  from a b c d show ?thesis by simp
qed

section \<open>Enhancement of the query\<close>

lemma occurrences_other:
  "occurrences ''recipe ingredients'' (concat (map ((@) '' '') (other_enhancements u))) = 0"
  by (simp add: other_enhancements_def Let_def)

text \<open>
  Claim C6 (amended). For every user input that contains one of the words \<open>have\<close>,
  \<open>using\<close>, \<open>with\<close>, \<open>got\<close> as a piece of its lower-case form, the enhanced query is the
  input, then a blank and the phrase \<open>recipe ingredients\<close>, then a rest in which the
  phrase does not occur: the phrase is appended once, however many of the words are
  there, and it occurs in the enhanced query once more than in the input itself (so
  exactly once when the input does not hold it already).
\<close>

theorem enhance_ingredient_intent:
  assumes "list_ex (\<lambda>word. contains word (lower user_input)) [''have'', ''using'', ''with'', ''got'']"
  shows "(\<exists>rest. enhance_user_query user_input = user_input @ '' recipe ingredients'' @ rest
            \<and> occurrences ''recipe ingredients'' rest = 0)
       \<and> occurrences ''recipe ingredients'' (enhance_user_query user_input)
           = occurrences ''recipe ingredients'' user_input + 1"
proof -
  let ?t = "concat (map ((@) '' '') (other_enhancements user_input))"
  have e: "enhance_user_query user_input = user_input @ '' recipe ingredients'' @ ?t"
    using assms by (rule enhance_ingredients)
  have "occurrences ''recipe ingredients'' (user_input @ '' recipe ingredients'' @ ?t) =
        occurrences ''recipe ingredients'' user_input
        + occurrences ''recipe ingredients'' ('' recipe ingredients'' @ ?t)"
    by (rule occurrences_append) (simp, rule no_straddle)
  then have "occurrences ''recipe ingredients'' (enhance_user_query user_input)
           = occurrences ''recipe ingredients'' user_input + 1"
    by (simp only: e occurrences_tail)
  with e occurrences_other [of user_input] show ?thesis by blast
qed

text \<open>An input with two of the words, in capitals and in small letters.\<close>

theorem enhance_ingredient_intent_witness:
  "list_ex (\<lambda>word. contains word (lower ''I HAVE rice, got eggs'')) [''have'', ''using'', ''with'', ''got'']
   \<and> enhance_user_query ''I HAVE rice, got eggs'' = ''I HAVE rice, got eggs recipe ingredients''
   \<and> occurrences ''recipe ingredients'' (enhance_user_query ''I HAVE rice, got eggs'') = 1"
proof -
  have h: "list_ex (\<lambda>word. contains word (lower ''I HAVE rice, got eggs'')) [''have'', ''using'', ''with'', ''got'']"
    by code_simp
  have e: "enhance_user_query ''I HAVE rice, got eggs'' = ''I HAVE rice, got eggs recipe ingredients''"
    by code_simp
  have z: "occurrences ''recipe ingredients'' ''I HAVE rice, got eggs'' = 0"
    by code_simp
  from enhance_ingredient_intent [OF h] z have
    "occurrences ''recipe ingredients'' (enhance_user_query ''I HAVE rice, got eggs'') = 1"
    by simp
  with h e show ?thesis by simp
qed

text \<open>
  An input that holds the phrase already: the enhanced query then holds it twice, not
  exactly once.
\<close>

theorem enhance_ingredient_intent_counterexample:
  "list_ex (\<lambda>word. contains word (lower ''what recipe ingredients go with rice''))
       [''have'', ''using'', ''with'', ''got'']
   \<and> enhance_user_query ''what recipe ingredients go with rice''
       = ''what recipe ingredients go with rice recipe ingredients''
   \<and> occurrences ''recipe ingredients'' (enhance_user_query ''what recipe ingredients go with rice'') = 2"
  by code_simp

section \<open>The filters\<close>







end
